theory Spec2Isabelle
  imports Main "HOL-Library.Sublist"
begin

section \<open>Values, effects and objects\<close>

text \<open>
  The development embeds the SQL driver core (\<^verbatim>\<open>xpart-sql.js\<close>: \<^verbatim>\<open>SQLDriver\<close>,
  \<^verbatim>\<open>SQLClient\<close>) and the PostgreSQL client (\<^verbatim>\<open>xpart-sql-pgsql.js\<close>:
  \<^verbatim>\<open>PGSQLDriver._createClient\<close>, \<^verbatim>\<open>_destroyClient\<close>, \<^verbatim>\<open>PGSQLClient._query\<close>,
  \<^verbatim>\<open>_onQuery\<close>).

  JavaScript objects have identity: a client is a reference \<open>cid\<close> into a store
  (\<open>clients\<close>), a user callback is a reference \<open>cbid\<close>. Everything the code does to
  the outside world (\<^verbatim>\<open>setImmediate\<close>, a synchronous call of a user callback, the
  backend's \<^verbatim>\<open>connect\<close>/\<^verbatim>\<open>query\<close>/\<^verbatim>\<open>end\<close>, the application logger) is appended to
  a trace of effects, in the order the code performs it.

  Left out: the connection URL and the type parsers of \<^verbatim>\<open>_createClient\<close>, the engine
  registry, and \<^verbatim>\<open>_postConfigure\<close> (the compiler is a field of the driver, any function on
  strings). The idle pool and the work queue are lists standing for the chains of
  \<^verbatim>\<open>_next\<close>/\<^verbatim>\<open>next\<close> links; the list and the chain agree as long as no client is released
  while it is already pooled (the chain is then cyclic, the list holds the client twice). A \<^verbatim>\<open>setImmediate\<close> that is given \<^verbatim>\<open>null\<close> is recorded as such;
  what the runtime does with it (it raises, at the call or when the immediate runs) is
  not followed further.
\<close>

type_synonym cid = nat
type_synonym cbid = nat

text \<open>One constructor for each \<^verbatim>\<open>new SQLError(...)\<close> of the source; the argument is the
  value interpolated into the message.\<close>

datatype sqlerror =
    AlreadyStarted string
  | AlreadyStopped string
  | CannotQuery string
  | CannotBegin string
  | BeginInTx int
  | CommitNotInTx
  | RollbackNotInTx

text \<open>The backend's result object: \<^verbatim>\<open>result.rows\<close> (possibly undefined) and
  \<^verbatim>\<open>result.rowCount\<close>.\<close>

record pgresult =
  rows :: "string list option"
  rowCount :: int

text \<open>The values handed to callbacks: \<^verbatim>\<open>null\<close>, a \<^verbatim>\<open>SQLError\<close>, an error object of the
  backend (by its \<^verbatim>\<open>toString()\<close>), a client (the transaction object), and the payload
  \<^verbatim>\<open>{rows, count}\<close>.\<close>

datatype jsval =
    Null
  | SQLError sqlerror
  | BackendError string
  | ClientObj cid
  | QueryResult "string list option" int

datatype effect =
    Immediate "cbid option" "jsval list"
  | Call cbid "jsval list"
  | BackendConnect
  | BackendQuery cid string
  | BackendEnd cid
  | AppError "string list"
  | AppSilly string
  | AppSillyRows "string list"
  | Throw string

text \<open>The fields of \<^verbatim>\<open>SQLClient\<close>. The pool link \<^verbatim>\<open>_next\<close> is the list structure of
  \<open>clientPool\<close> below; \<^verbatim>\<open>_driver\<close> and \<^verbatim>\<open>_impl\<close> are fixed per client.\<close>

record client =
  txId :: int
  txState :: string
  failed :: bool
  pooled :: bool
  returnToPool :: bool
  c_qs :: string
  c_cb :: "cbid option"

definition SQLClient_new :: client where
  "SQLClient_new =
     \<lparr>txId = -1, txState = '''', failed = False, pooled = False, returnToPool = True,
      c_qs = '''', c_cb = None\<rparr>"

text \<open>
  The fields of \<^verbatim>\<open>SQLDriver._internal\<close> that the driver core reads or writes, followed by
  the store of client objects and the trace of effects.
  \<^item> \<open>clientPool\<close> is the chain of \<^verbatim>\<open>_next\<close> links starting at \<^verbatim>\<open>internal.clientPool\<close>
    (head first); \<open>queue\<close> is the chain from \<^verbatim>\<open>queueFirst\<close> to \<^verbatim>\<open>queueLast\<close>, an item
    being \<^verbatim>\<open>{qs, cb}\<close> with \<^verbatim>\<open>qs = null\<close> for a transaction request.
  \<^item> \<open>onDelayedStop\<close> is the property \<^verbatim>\<open>internal.onDelayedStop\<close>; \<open>u_onDelayedStop\<close> is the
    distinct property \<^verbatim>\<open>internal._onDelayedStop\<close> that \<^verbatim>\<open>stop()\<close> writes.
  \<^item> The counters are JavaScript numbers holding integers; they are \<open>int\<close> here.
\<close>

record driver =
  status :: string
  compiler :: "string \<Rightarrow> string"
  debugQueries :: bool
  debugResults :: bool
  clientsCount :: int
  clientsActive :: int
  clientsMinimum :: int
  clientsMaximum :: int
  failuresCount :: int
  failuresMaximum :: int
  clientPool :: "cid list"
  queue :: "(string option \<times> cbid) list"
  queueSize :: int
  txIdGenerator :: int
  onDelayedStop :: "cbid option"
  u_onDelayedStop :: "cbid option"
  clients :: "cid \<Rightarrow> client"
  nextClient :: cid
  effects :: "effect list"

record config =
  minConnections :: "int option"
  maxConnections :: "int option"
  maximumFailures :: "int option"
  cfg_debugQueries :: bool
  cfg_debugResults :: bool

text \<open>\<^verbatim>\<open>x || dflt\<close> on an optional number: \<^verbatim>\<open>undefined\<close> and \<^verbatim>\<open>0\<close> are falsy.\<close>

definition js_or :: "int option \<Rightarrow> int \<Rightarrow> int" where
  "js_or x dflt = (case x of None \<Rightarrow> dflt | Some v \<Rightarrow> if v = 0 then dflt else v)"

text \<open>\<^verbatim>\<open>nopCompiler.compile(q) = String(q)\<close>, on a string.\<close>

definition nopCompiler :: "string \<Rightarrow> string" where
  "nopCompiler q = q"

text \<open>The constructor of \<^verbatim>\<open>SQLDriver\<close>, with the default compiler.\<close>

definition SQLDriver_new :: "config \<Rightarrow> driver" where
  "SQLDriver_new cfg =
     \<lparr>status = ''pending'',
      compiler = nopCompiler,
      debugQueries = cfg_debugQueries cfg,
      debugResults = cfg_debugResults cfg,
      clientsCount = 0,
      clientsActive = 0,
      clientsMinimum = js_or (minConnections cfg) 0,
      clientsMaximum = js_or (maxConnections cfg) 20,
      failuresCount = 0,
      failuresMaximum = js_or (maximumFailures cfg) 20,
      clientPool = [],
      queue = [],
      queueSize = 0,
      txIdGenerator = 0,
      onDelayedStop = None,
      u_onDelayedStop = None,
      clients = (\<lambda>_. SQLClient_new),
      nextClient = 0,
      effects = []\<rparr>"

section \<open>Primitive effects\<close>

definition emit :: "effect \<Rightarrow> driver \<Rightarrow> driver" where
  "emit e d = d\<lparr>effects := effects d @ [e]\<rparr>"

text \<open>\<^verbatim>\<open>setImmediate(cb, args...)\<close> is recorded with the callback it was given, \<^verbatim>\<open>null\<close>
  included.\<close>

definition setImmediate :: "cbid option \<Rightarrow> jsval list \<Rightarrow> driver \<Rightarrow> driver" where
  "setImmediate cb args d = emit (Immediate cb args) d"

text \<open>A synchronous call \<^verbatim>\<open>cb(args...)\<close>; calling \<^verbatim>\<open>null\<close> raises a TypeError.\<close>

definition call :: "cbid option \<Rightarrow> jsval list \<Rightarrow> driver \<Rightarrow> driver" where
  "call cb args d =
     (case cb of None \<Rightarrow> emit (Throw ''TypeError'') d | Some f \<Rightarrow> emit (Call f args) d)"

definition upd_client :: "cid \<Rightarrow> (client \<Rightarrow> client) \<Rightarrow> driver \<Rightarrow> driver" where
  "upd_client c f d = d\<lparr>clients := (clients d)(c := f (clients d c))\<rparr>"

section \<open>PGSQLDriver and the driver's shutdown path\<close>

text \<open>\<^verbatim>\<open>PGSQLDriver._destroyClient\<close>: \<^verbatim>\<open>client._impl.end()\<close>.\<close>

definition destroyClient :: "cid \<Rightarrow> driver \<Rightarrow> driver" where
  "destroyClient c d = emit (BackendEnd c) d"

text \<open>\<^verbatim>\<open>PGSQLDriver._createClient\<close>: a backend connection is opened; its completion arrives
  later (\<open>connected\<close> below).\<close>

definition createClient :: "driver \<Rightarrow> driver" where
  "createClient d = emit BackendConnect d"

text \<open>\<^verbatim>\<open>SQLDriver._start\<close> and \<^verbatim>\<open>SQLDriver._stop\<close>.\<close>

definition SQLDriver__start :: "cbid \<Rightarrow> driver \<Rightarrow> driver" where
  "SQLDriver__start cb d = setImmediate (Some cb) [Null] (d\<lparr>status := ''running''\<rparr>)"

definition SQLDriver__stop :: "cbid option \<Rightarrow> driver \<Rightarrow> driver" where
  "SQLDriver__stop cb d =
     setImmediate cb [Null] (d\<lparr>status := ''stopped'', onDelayedStop := None\<rparr>)"

text \<open>\<^verbatim>\<open>SQLDriver._destroyPool\<close>: the loop destroys every pooled client and counts them in
  \<open>n\<close>; both counters are then decreased by \<open>n\<close>.\<close>

fun destroyPool_loop :: "cid list \<Rightarrow> int \<Rightarrow> driver \<Rightarrow> int \<times> driver" where
  "destroyPool_loop [] n d = (n, d)"
| "destroyPool_loop (c # next) n d = destroyPool_loop next (n + 1) (destroyClient c d)"

definition destroyPool :: "driver \<Rightarrow> driver" where
  "destroyPool d =
     (case destroyPool_loop (clientPool d) 0 d of
        (n, d1) \<Rightarrow>
          d1\<lparr>clientsCount := clientsCount d1 - n,
             clientsActive := clientsActive d1 - n,
             clientPool := []\<rparr>)"

text \<open>\<^verbatim>\<open>SQLDriver._idle\<close>.\<close>

definition idle :: "driver \<Rightarrow> driver" where
  "idle d =
     (if clientsActive d = 0 \<and> status d = ''stopping'' then
        (let d1 = destroyPool d in SQLDriver__stop (onDelayedStop d1) d1)
      else d)"

text \<open>\<^verbatim>\<open>SQLDriver._releaseClient\<close>.\<close>

definition releaseClient :: "cid \<Rightarrow> driver \<Rightarrow> driver" where
  "releaseClient c d =
     (let keep = (status d = ''running'' \<and> \<not> failed (clients d c)) in
      idle
        (if \<not> keep then
           destroyClient c
             (d\<lparr>clientsCount := clientsCount d - 1, clientsActive := clientsActive d - 1\<rparr>)
         else
           (upd_client c
              (\<lambda>cl. cl\<lparr>txId := -1, txState := '''', pooled := True, returnToPool := True\<rparr>) d)
             \<lparr>clientsActive := clientsActive d - 1, clientPool := c # clientPool d\<rparr>))"

section \<open>SQLClient\<close>

text \<open>\<^verbatim>\<open>PGSQLClient._query\<close>: the query string and the callback are stored on the client and
  the backend is called.\<close>

definition PGSQLClient__query :: "cid \<Rightarrow> string \<Rightarrow> cbid \<Rightarrow> driver \<Rightarrow> driver" where
  "PGSQLClient__query c qs cb d =
     emit (BackendQuery c qs) (upd_client c (\<lambda>cl. cl\<lparr>c_qs := qs, c_cb := Some cb\<rparr>) d)"

text \<open>\<^verbatim>\<open>SQLClient.query\<close>.\<close>

definition SQLClient_query :: "cid \<Rightarrow> string \<Rightarrow> cbid \<Rightarrow> driver \<Rightarrow> driver" where
  "SQLClient_query c q cb d =
     (let qs = compiler d q in
      if txId (clients d c) \<noteq> -1 then
        (if txState (clients d c) = '''' then
           PGSQLClient__query c (''BEGIN;\<newline>'' @ qs) cb
             (upd_client c (\<lambda>cl. cl\<lparr>txState := ''PENDING''\<rparr>) d)
         else PGSQLClient__query c qs cb d)
      else PGSQLClient__query c qs cb d)"

text \<open>\<^verbatim>\<open>SQLDriver._newTxId\<close>: \<^verbatim>\<open>++internal.txIdGenerator\<close>.\<close>

definition newTxId :: "driver \<Rightarrow> int \<times> driver" where
  "newTxId d = (txIdGenerator d + 1, d\<lparr>txIdGenerator := txIdGenerator d + 1\<rparr>)"

text \<open>
  \<^verbatim>\<open>SQLClient.begin\<close>, \<^verbatim>\<open>SQLDriver._onClientIdle\<close> and \<^verbatim>\<open>SQLDriver._handleQueue\<close> call each
  other: a \<^verbatim>\<open>begin\<close> on a client that is in a transaction hands the client back to
  \<^verbatim>\<open>_onClientIdle\<close>, which serves the next queue item. Every round removes one item from
  the queue. \<^verbatim>\<open>_handleQueue\<close> on an empty queue reads \<^verbatim>\<open>item.next\<close> of \<^verbatim>\<open>null\<close>.
\<close>

function SQLClient_begin :: "cid \<Rightarrow> cbid \<Rightarrow> driver \<Rightarrow> driver"
  and onClientIdle :: "cid \<Rightarrow> driver \<Rightarrow> driver"
  and handleQueue :: "cid \<Rightarrow> driver \<Rightarrow> driver"
where
  "SQLClient_begin c cb d =
     (if txId (clients d c) \<noteq> -1 then
        onClientIdle c
          (setImmediate (Some cb) [Null, SQLError (BeginInTx (txId (clients d c)))] d)
      else
        (case newTxId d of
           (t, d1) \<Rightarrow>
             setImmediate (Some cb) [Null, ClientObj c]
               (upd_client c (\<lambda>cl. cl\<lparr>txId := t, txState := '''', returnToPool := False\<rparr>) d1)))"
| "onClientIdle c d =
     (if queue d \<noteq> [] then handleQueue c d else releaseClient c d)"
| "handleQueue c d =
     (case queue d of
        [] \<Rightarrow> emit (Throw ''TypeError'') d
      | item # next \<Rightarrow>
          (let d1 = d\<lparr>queue := next, queueSize := queueSize d - 1\<rparr> in
           case fst item of
             Some qs \<Rightarrow> SQLClient_query c qs (snd item) d1
           | None \<Rightarrow> SQLClient_begin c (snd item) d1))"
  by pat_completeness auto

termination
  by (relation "measure (\<lambda>x. case x of
      Inl (c, cb, d) \<Rightarrow> 3 * length (queue d) + 2
    | Inr (Inl (c, d)) \<Rightarrow> 3 * length (queue d) + 1
    | Inr (Inr (c, d)) \<Rightarrow> 3 * length (queue d))")
    (auto simp: emit_def setImmediate_def)

text \<open>\<^verbatim>\<open>SQLClient.commit\<close>; the optional statement \<^verbatim>\<open>q\<close> is \<^verbatim>\<open>""\<close> when it is absent.\<close>

definition SQLClient_commit :: "cid \<Rightarrow> string option \<Rightarrow> cbid \<Rightarrow> driver \<Rightarrow> driver" where
  "SQLClient_commit c q cb d =
     (let qs = compiler d (case q of None \<Rightarrow> '''' | Some s \<Rightarrow> s) in
      if txId (clients d c) = -1 then
        onClientIdle c (setImmediate (Some cb) [Null, SQLError CommitNotInTx] d)
      else if txState (clients d c) = '''' \<and> qs = '''' then
        onClientIdle c (setImmediate (Some cb) [Null, Null] d)
      else
        (let qs1 = (if txState (clients d c) = '''' then ''BEGIN;\<newline>'' @ qs else qs);
             qs2 = (if qs1 = '''' then ''COMMIT;'' else qs1 @ ''\<newline>COMMIT;'')
         in SQLClient_query c qs2 cb
              (upd_client c (\<lambda>cl. cl\<lparr>txState := ''COMMIT'', returnToPool := True\<rparr>) d)))"

text \<open>\<^verbatim>\<open>SQLClient.rollback\<close>.\<close>

definition SQLClient_rollback :: "cid \<Rightarrow> cbid \<Rightarrow> driver \<Rightarrow> driver" where
  "SQLClient_rollback c cb d =
     (if txId (clients d c) = -1 then
        onClientIdle c (setImmediate (Some cb) [Null, SQLError RollbackNotInTx] d)
      else if txState (clients d c) = '''' then
        onClientIdle c (setImmediate (Some cb) [Null, Null] d)
      else
        SQLClient_query c ''ROLLBACK;'' cb
          (upd_client c (\<lambda>cl. cl\<lparr>txState := ''ROLLBACK'', returnToPool := True\<rparr>) d))"

section \<open>SQLDriver: pool, queue and scheduling\<close>

text \<open>\<^verbatim>\<open>SQLDriver._getClientFromPool\<close>; on an empty pool the source reads \<^verbatim>\<open>_next\<close> of
  \<^verbatim>\<open>null\<close> and raises (\<open>None\<close>).\<close>

definition getClientFromPool :: "driver \<Rightarrow> (cid \<times> driver) option" where
  "getClientFromPool d =
     (case clientPool d of
        [] \<Rightarrow> None
      | c # next \<Rightarrow>
          Some (c, upd_client c (\<lambda>cl. cl\<lparr>pooled := False\<rparr>)
                     (d\<lparr>clientPool := next, clientsActive := clientsActive d + 1\<rparr>)))"

text \<open>\<^verbatim>\<open>SQLDriver._scheduleWork\<close>.\<close>

definition scheduleWork :: "driver \<Rightarrow> driver" where
  "scheduleWork d =
     (if queue d \<noteq> [] then
        (if clientPool d \<noteq> [] then
           (case getClientFromPool d of
              None \<Rightarrow> emit (Throw ''TypeError'') d
            | Some (c, d1) \<Rightarrow> handleQueue c d1)
         else if clientsCount d < clientsMaximum d then
           createClient (d\<lparr>clientsCount := clientsCount d + 1\<rparr>)
         else d)
      else d)"

text \<open>\<^verbatim>\<open>SQLDriver._addToQueue\<close>: the item is linked after \<^verbatim>\<open>queueLast\<close>.\<close>

definition addToQueue :: "string option \<Rightarrow> cbid \<Rightarrow> driver \<Rightarrow> driver" where
  "addToQueue qs cb d =
     scheduleWork (d\<lparr>queue := queue d @ [(qs, cb)], queueSize := queueSize d + 1\<rparr>)"

text \<open>\<^verbatim>\<open>SQLDriver.start\<close> and \<^verbatim>\<open>SQLDriver.stop\<close>.\<close>

definition SQLDriver_start :: "cbid \<Rightarrow> driver \<Rightarrow> driver" where
  "SQLDriver_start cb d =
     (if status d \<noteq> ''pending'' then
        setImmediate (Some cb) [SQLError (AlreadyStarted (status d)), Null] d
      else SQLDriver__start cb d)"

fun SQLDriver_stop :: "cbid \<Rightarrow> driver \<Rightarrow> driver" where
  "SQLDriver_stop cb d =
     (if status d \<noteq> ''running'' \<or> onDelayedStop d \<noteq> None then
        setImmediate (Some cb) [SQLError (AlreadyStopped (status d)), Null] d
      else
        (let d1 = d\<lparr>status := ''stopping''\<rparr> in
         if clientsActive d1 \<noteq> 0 then d1\<lparr>u_onDelayedStop := Some cb\<rparr>
         else SQLDriver__stop (Some cb) (destroyPool d1)))"

text \<open>\<^verbatim>\<open>SQLDriver.query\<close>; \<open>tx\<close> is the optional transaction object (a client).\<close>

definition SQLDriver_query :: "string \<Rightarrow> cbid \<Rightarrow> cid option \<Rightarrow> driver \<Rightarrow> driver" where
  "SQLDriver_query q cb tx d =
     (let qs = compiler d q in
      case tx of
        Some t \<Rightarrow> SQLClient_query t qs cb d
      | None \<Rightarrow>
          if status d \<noteq> ''running'' then
            setImmediate (Some cb) [SQLError (CannotQuery (status d)), Null] d
          else if clientPool d \<noteq> [] then
            (case getClientFromPool d of
               None \<Rightarrow> emit (Throw ''TypeError'') d
             | Some (c, d1) \<Rightarrow> SQLClient_query c qs cb d1)
          else addToQueue (Some qs) cb d)"

text \<open>\<^verbatim>\<open>SQLDriver.begin\<close>.\<close>

definition SQLDriver_begin :: "cbid \<Rightarrow> driver \<Rightarrow> driver" where
  "SQLDriver_begin cb d =
     (if status d \<noteq> ''running'' then
        setImmediate (Some cb) [SQLError (CannotBegin (status d)), Null] d
      else if clientPool d \<noteq> [] then
        (case getClientFromPool d of
           None \<Rightarrow> emit (Throw ''TypeError'') d
         | Some (c, d1) \<Rightarrow> SQLClient_begin c cb d1)
      else addToQueue None cb d)"

text \<open>\<^verbatim>\<open>SQLDriver._onClientCreated\<close>; \<^verbatim>\<open>err.toString()\<close> of a \<^verbatim>\<open>null\<close> error raises.\<close>

definition onClientCreated :: "string option \<Rightarrow> cid option \<Rightarrow> driver \<Rightarrow> driver" where
  "onClientCreated err client d =
     (case client of
        Some c \<Rightarrow> onClientIdle c (d\<lparr>clientsActive := clientsActive d + 1\<rparr>)
      | None \<Rightarrow>
          (case err of
             None \<Rightarrow> emit (Throw ''TypeError'') d
           | Some e \<Rightarrow>
               (let d1 = emit (AppError [''Failed to create a new SQLClient: '', e]) d;
                    d2 = d1\<lparr>clientsCount := clientsCount d1 - 1,
                            failuresCount := failuresCount d1 + 1\<rparr>
                in if clientsCount d2 = 0 then
                     (if failuresCount d2 \<ge> failuresMaximum d2 then d2 else scheduleWork d2)
                   else d2)))"

text \<open>The callback \<^verbatim>\<open>PGSQLDriver._createClient\<close> gives to \<^verbatim>\<open>impl.connect\<close>: on success a new
  \<^verbatim>\<open>PGSQLClient\<close> object is allocated.\<close>

definition connected :: "string option \<Rightarrow> driver \<Rightarrow> driver" where
  "connected err d =
     (case err of
        Some e \<Rightarrow> onClientCreated (Some e) None d
      | None \<Rightarrow>
          (let c = nextClient d in
           onClientCreated None (Some c)
             (d\<lparr>clients := (clients d)(c := SQLClient_new), nextClient := c + 1\<rparr>)))"

text \<open>\<^verbatim>\<open>PGSQLClient._onQuery\<close>: the backend's completion of the client's query. With
  \<^verbatim>\<open>debugResults\<close>, \<^verbatim>\<open>JSON.stringify\<close> of undefined rows is \<^verbatim>\<open>undefined\<close> and
  \<^verbatim>\<open>.replace\<close> on it raises; the formatting of defined rows is left symbolic.\<close>

definition PGSQLClient_onQuery :: "cid \<Rightarrow> string option \<Rightarrow> pgresult \<Rightarrow> driver \<Rightarrow> driver" where
  "PGSQLClient_onQuery c err result d =
     (let qs = c_qs (clients d c);
          cb = c_cb (clients d c);
          d1 = upd_client c (\<lambda>cl. cl\<lparr>c_qs := '''', c_cb := None\<rparr>) d;
          d2 = (if returnToPool (clients d1 c) then onClientIdle c d1 else d1)
      in case err of
           Some e \<Rightarrow>
             call cb [BackendError e, Null]
               (emit (AppError [''[xpart.sql] Query:\<newline>'' @ qs @ ''\<newline>'',
                                ''[xpart.sql] '' @ e]) d2)
         | None \<Rightarrow>
             (let d3 = (if debugQueries d2
                        then emit (AppSilly (''[xpart.sql] Query:\<newline>'' @ qs)) d2 else d2)
              in if debugResults d3 then
                   (case rows result of
                      None \<Rightarrow> emit (Throw ''TypeError'') d3
                    | Some r \<Rightarrow>
                        call cb [Null, QueryResult (rows result) (rowCount result)]
                          (emit (AppSillyRows r) d3))
                 else call cb [Null, QueryResult (rows result) (rowCount result)] d3))"

section \<open>Traces of operations\<close>

text \<open>
  The operations that drive the system: the public methods of the driver, the methods of
  a transaction object, and the two completions delivered by the backend (a connection
  attempt, a query on a client).
\<close>

datatype event =
    Start cbid
  | Stop cbid
  | Query string cbid "cid option"
  | Begin cbid
  | TxBegin cid cbid
  | TxQuery cid string cbid
  | TxCommit cid "string option" cbid
  | TxRollback cid cbid
  | Connected "string option"
  | QueryDone cid "string option" pgresult

fun step :: "event \<Rightarrow> driver \<Rightarrow> driver" where
  "step (Start cb) d = SQLDriver_start cb d"
| "step (Stop cb) d = SQLDriver_stop cb d"
| "step (Query q cb tx) d = SQLDriver_query q cb tx d"
| "step (Begin cb) d = SQLDriver_begin cb d"
| "step (TxBegin c cb) d = SQLClient_begin c cb d"
| "step (TxQuery c q cb) d = SQLClient_query c q cb d"
| "step (TxCommit c q cb) d = SQLClient_commit c q cb d"
| "step (TxRollback c cb) d = SQLClient_rollback c cb d"
| "step (Connected err) d = connected err d"
| "step (QueryDone c err result) d = PGSQLClient_onQuery c err result d"

fun run :: "event list \<Rightarrow> driver \<Rightarrow> driver" where
  "run [] d = d"
| "run (e # es) d = run es (step e d)"

section \<open>Observations and inputs\<close>

text \<open>The SQL strings passed to the backend's \<^verbatim>\<open>query\<close>, in order, and the user callbacks
  called synchronously, in order.\<close>

definition sql_of :: "effect \<Rightarrow> string list" where
  "sql_of e = (case e of BackendQuery c qs \<Rightarrow> [qs] | _ \<Rightarrow> [])"

definition backend_queries :: "effect list \<Rightarrow> string list" where
  "backend_queries es = concat (map sql_of es)"



text \<open>The configuration object \<^verbatim>\<open>{}\<close> (every option absent) and a successful backend
  result with no rows.\<close>

definition empty_config :: config where
  "empty_config =
     \<lparr>minConnections = None, maxConnections = None, maximumFailures = None,
      cfg_debugQueries = False, cfg_debugResults = False\<rparr>"

definition result_ok :: pgresult where
  "result_ok = \<lparr>rows = Some [], rowCount = 0\<rparr>"

text \<open>The further traffic of a transaction on client \<open>c\<close>: for each later statement, the
  backend's completion of the statement before it, then the next \<^verbatim>\<open>tx.query(q, cb)\<close>.\<close>

fun tx_session :: "cid \<Rightarrow> (string \<times> cbid \<times> string option \<times> pgresult) list \<Rightarrow> event list" where
  "tx_session c [] = []"
| "tx_session c ((q, cb, err, res) # rest) =
     QueryDone c err res # TxQuery c q cb # tx_session c rest"



text \<open>A running driver whose client \<open>0\<close> has just been handed out as transaction \<open>1\<close>.\<close>

definition in_tx_state :: driver where
  "in_tx_state = run [Start 0, Begin 1, Connected None] (SQLDriver_new empty_config)"

text \<open>Further reachable states used as concrete inputs: a running driver; a running
  driver whose client \<open>0\<close> has served one query and is idle in the pool; a driver limited to
  one connection with a query queued while that connection is being opened; a stopping
  driver whose client \<open>0\<close> holds transaction \<open>1\<close>.\<close>

definition running_state :: driver where
  "running_state = run [Start 0] (SQLDriver_new empty_config)"

definition pooled_state :: driver where
  "pooled_state =
     run [Start 0, Query ''SELECT 1'' 1 None, Connected None, QueryDone 0 None result_ok]
       (SQLDriver_new empty_config)"

definition busy_state :: driver where
  "busy_state =
     run [Start 0, Query ''A'' 1 None]
       (SQLDriver_new (empty_config\<lparr>maxConnections := Some 1\<rparr>))"

definition stopping_tx_state :: driver where
  "stopping_tx_state =
     run [Start 0, Begin 1, Connected None, Stop 2] (SQLDriver_new empty_config)"

text \<open>What begins as true in a new driver and is kept by every operation: the transaction
  counter is not negative, no client is marked \<^verbatim>\<open>_failed\<close>, and a client marked
  \<^verbatim>\<open>_returnToPool\<close> is outside a transaction or finishing one.\<close>

definition reach_inv :: "driver \<Rightarrow> bool" where
  "reach_inv d =
     (0 \<le> txIdGenerator d
      \<and> (\<forall>c. \<not> failed (clients d c)
             \<and> (returnToPool (clients d c) \<longrightarrow>
                  txId (clients d c) = -1 \<or> txState (clients d c) = ''COMMIT''
                  \<or> txState (clients d c) = ''ROLLBACK'')))"





section \<open>How the operations change the state\<close>

text \<open>The three mutually recursive operations are unfolded by hand. The lemmas below say
  which fields each operation leaves alone and what it appends to the trace.\<close>

declare SQLClient_begin.simps [simp del] onClientIdle.simps [simp del] handleQueue.simps [simp del]

lemma emit_frame [simp]:
  "status (emit e d) = status d" "compiler (emit e d) = compiler d"
  "debugQueries (emit e d) = debugQueries d" "debugResults (emit e d) = debugResults d"
  "clientsCount (emit e d) = clientsCount d" "clientsActive (emit e d) = clientsActive d"
  "clientsMaximum (emit e d) = clientsMaximum d"
  "failuresCount (emit e d) = failuresCount d" "failuresMaximum (emit e d) = failuresMaximum d"
  "clientPool (emit e d) = clientPool d" "queue (emit e d) = queue d"
  "txIdGenerator (emit e d) = txIdGenerator d"
  "onDelayedStop (emit e d) = onDelayedStop d" "clients (emit e d) = clients d"
  "nextClient (emit e d) = nextClient d" "effects (emit e d) = effects d @ [e]"
  by (simp_all add: emit_def)

lemma setImmediate_frame [simp]:
  "status (setImmediate cb a d) = status d" "compiler (setImmediate cb a d) = compiler d"
  "debugQueries (setImmediate cb a d) = debugQueries d"
  "debugResults (setImmediate cb a d) = debugResults d"
  "clientsCount (setImmediate cb a d) = clientsCount d"
  "clientsActive (setImmediate cb a d) = clientsActive d"
  "clientsMaximum (setImmediate cb a d) = clientsMaximum d"
  "clientPool (setImmediate cb a d) = clientPool d" "queue (setImmediate cb a d) = queue d"
  "txIdGenerator (setImmediate cb a d) = txIdGenerator d"
  "onDelayedStop (setImmediate cb a d) = onDelayedStop d"
  "clients (setImmediate cb a d) = clients d"
  "effects (setImmediate cb a d) = effects d @ [Immediate cb a]"
  by (simp_all add: setImmediate_def)

lemma call_frame [simp]:
  "status (call cb a d) = status d" "compiler (call cb a d) = compiler d"
  "clientPool (call cb a d) = clientPool d" "queue (call cb a d) = queue d"
  "clients (call cb a d) = clients d"
  by (simp_all add: call_def split: option.splits)

lemma upd_client_frame [simp]:
  "status (upd_client c f d) = status d" "compiler (upd_client c f d) = compiler d"
  "debugQueries (upd_client c f d) = debugQueries d"
  "debugResults (upd_client c f d) = debugResults d"
  "clientsCount (upd_client c f d) = clientsCount d"
  "clientsActive (upd_client c f d) = clientsActive d"
  "clientsMaximum (upd_client c f d) = clientsMaximum d"
  "clientPool (upd_client c f d) = clientPool d" "queue (upd_client c f d) = queue d"
  "txIdGenerator (upd_client c f d) = txIdGenerator d"
  "onDelayedStop (upd_client c f d) = onDelayedStop d"
  "effects (upd_client c f d) = effects d"
  "clients (upd_client c f d) = (clients d)(c := f (clients d c))"
  by (simp_all add: upd_client_def)

lemma backend_queries_append [simp]:
  "backend_queries (xs @ ys) = backend_queries xs @ backend_queries ys"
  by (simp add: backend_queries_def)

lemma backend_queries_simps [simp]:
  "backend_queries [] = []"
  "backend_queries (e # es) = sql_of e @ backend_queries es"
  by (simp_all add: backend_queries_def)

lemma sql_of_simps [simp]:
  "sql_of (BackendQuery c qs) = [qs]"
  "sql_of (Immediate cb a) = []"
  "sql_of (Call f a) = []"
  "sql_of (AppError l) = []"
  "sql_of (AppSilly s) = []"
  "sql_of (AppSillyRows r) = []"
  "sql_of (Throw s) = []"
  "sql_of (BackendEnd c) = []"
  "sql_of BackendConnect = []"
  by (simp_all add: sql_of_def)

lemma call_backend_queries [simp]:
  "backend_queries (effects (call cb a d)) = backend_queries (effects d)"
  by (simp add: call_def split: option.splits)

lemma PGSQLClient__query_frame [simp]:
  "status (PGSQLClient__query c qs cb d) = status d"
  "compiler (PGSQLClient__query c qs cb d) = compiler d"
  "clientPool (PGSQLClient__query c qs cb d) = clientPool d"
  "queue (PGSQLClient__query c qs cb d) = queue d"
  "effects (PGSQLClient__query c qs cb d) = effects d @ [BackendQuery c qs]"
  "clients (PGSQLClient__query c qs cb d) =
     (clients d)(c := (clients d c)\<lparr>c_qs := qs, c_cb := Some cb\<rparr>)"
  by (simp_all add: PGSQLClient__query_def)

lemma SQLClient_query_frame [simp]:
  "status (SQLClient_query c q cb d) = status d"
  "compiler (SQLClient_query c q cb d) = compiler d"
  "clientPool (SQLClient_query c q cb d) = clientPool d"
  "queue (SQLClient_query c q cb d) = queue d"
  by (simp_all add: SQLClient_query_def Let_def)

lemma SQLClient_query_effects:
  "effects (SQLClient_query c q cb d) =
     effects d @ [BackendQuery c
       (if txId (clients d c) \<noteq> -1 \<and> txState (clients d c) = ''''
        then ''BEGIN;\<newline>'' @ compiler d q else compiler d q)]"
  by (simp add: SQLClient_query_def Let_def)

lemma SQLClient_query_client:
  "txId (clients (SQLClient_query c q cb d) c) = txId (clients d c)"
  "returnToPool (clients (SQLClient_query c q cb d) c) = returnToPool (clients d c)"
  "txState (clients (SQLClient_query c q cb d) c) =
     (if txId (clients d c) \<noteq> -1 \<and> txState (clients d c) = ''''
      then ''PENDING'' else txState (clients d c))"
  "c_cb (clients (SQLClient_query c q cb d) c) = Some cb"
  by (simp_all add: SQLClient_query_def Let_def)


lemma onQuery_in_tx:
  assumes "\<not> returnToPool (clients d c)"
  shows "backend_queries (effects (PGSQLClient_onQuery c err res d)) = backend_queries (effects d)"
    and "compiler (PGSQLClient_onQuery c err res d) = compiler d"
    and "txId (clients (PGSQLClient_onQuery c err res d) c) = txId (clients d c)"
    and "txState (clients (PGSQLClient_onQuery c err res d) c) = txState (clients d c)"
    and "returnToPool (clients (PGSQLClient_onQuery c err res d) c) = returnToPool (clients d c)"
  using assms
  by (simp_all add: PGSQLClient_onQuery_def Let_def split: option.splits)


lemma destroyPool_loop_frame [simp]:
  "queue (snd (destroyPool_loop xs n d)) = queue d"
  "status (snd (destroyPool_loop xs n d)) = status d"
  "compiler (snd (destroyPool_loop xs n d)) = compiler d"
  "onDelayedStop (snd (destroyPool_loop xs n d)) = onDelayedStop d"
  by (induction xs arbitrary: n d) (simp_all add: destroyClient_def)

lemma destroyPool_frame [simp]:
  "queue (destroyPool d) = queue d"
  "status (destroyPool d) = status d"
  "compiler (destroyPool d) = compiler d"
  "onDelayedStop (destroyPool d) = onDelayedStop d"
  by (simp_all add: destroyPool_def split: prod.splits)
    (metis destroyPool_loop_frame snd_conv)+

lemma stop'_frame [simp]:
  "queue (SQLDriver__stop cb d) = queue d"
  "compiler (SQLDriver__stop cb d) = compiler d"
  by (simp_all add: SQLDriver__stop_def)

lemma idle_frame [simp]:
  "queue (idle d) = queue d" "compiler (idle d) = compiler d"
  by (simp_all add: idle_def Let_def)

lemma releaseClient_frame [simp]:
  "queue (releaseClient c d) = queue d" "compiler (releaseClient c d) = compiler d"
  by (simp_all add: releaseClient_def Let_def destroyClient_def)


lemma getClientFromPool_Cons:
  "clientPool d = c # pool \<Longrightarrow>
   getClientFromPool d =
     Some (c, upd_client c (\<lambda>cl. cl\<lparr>pooled := False\<rparr>)
                (d\<lparr>clientPool := pool, clientsActive := clientsActive d + 1\<rparr>))"
  by (simp add: getClientFromPool_def)















subsection \<open>An invariant of the reachable states\<close>

lemma txIdGenerator_frame [simp]:
  "txIdGenerator (call k a d) = txIdGenerator d"
  "txIdGenerator (PGSQLClient__query c qs cb d) = txIdGenerator d"
  "txIdGenerator (SQLClient_query c q cb d) = txIdGenerator d"
  by (simp_all add: call_def PGSQLClient__query_def SQLClient_query_def Let_def
      split: option.splits)

lemma destroyPool_loop_clients [simp]:
  "clients (snd (destroyPool_loop xs n d)) = clients d"
  "txIdGenerator (snd (destroyPool_loop xs n d)) = txIdGenerator d"
  by (induction xs arbitrary: n d) (simp_all add: destroyClient_def)

lemma destroyPool_clients [simp]:
  "clients (destroyPool d) = clients d" "txIdGenerator (destroyPool d) = txIdGenerator d"
  by (simp_all add: destroyPool_def split: prod.splits)
    (metis destroyPool_loop_clients snd_conv)+

lemma idle_clients [simp]:
  "clients (idle d) = clients d" "txIdGenerator (idle d) = txIdGenerator d"
  by (simp_all add: idle_def Let_def SQLDriver__stop_def)

lemma reach_inv_releaseClient: "reach_inv d \<Longrightarrow> reach_inv (releaseClient c d)"
  by (simp add: reach_inv_def releaseClient_def Let_def destroyClient_def)

lemma reach_inv_SQLClient_query: "reach_inv d \<Longrightarrow> reach_inv (SQLClient_query c q cb d)"
  by (auto simp add: reach_inv_def SQLClient_query_def Let_def)

lemma reach_inv_trio:
  "reach_inv d \<Longrightarrow> reach_inv (SQLClient_begin c cb d)"
  "reach_inv d' \<Longrightarrow> reach_inv (onClientIdle c' d')"
  "reach_inv d'' \<Longrightarrow> reach_inv (handleQueue c'' d'')"
proof (induct c cb d and c' d' and c'' d'' rule: SQLClient_begin_onClientIdle_handleQueue.induct)
  case (1 c cb d)
  show ?case
  proof (cases "txId (clients d c) \<noteq> -1")
    case True
    have "reach_inv (setImmediate (Some cb) [Null, SQLError (BeginInTx (txId (clients d c)))] d)"
      using "1.prems" by (simp add: reach_inv_def)
    with 1 True show ?thesis by (simp add: SQLClient_begin.simps)
  next
    case False
    then show ?thesis
      using "1.prems" by (simp add: SQLClient_begin.simps newTxId_def reach_inv_def)
  qed
next
  case (2 c d)
  then show ?case
    by (cases "queue d \<noteq> []") (simp_all add: onClientIdle.simps reach_inv_releaseClient)
next
  case (3 c d)
  show ?case
  proof (cases "queue d")
    case Nil
    then show ?thesis using "3.prems" by (simp add: handleQueue.simps reach_inv_def)
  next
    case (Cons item rest)
    let ?d1 = "d\<lparr>queue := rest, queueSize := queueSize d - 1\<rparr>"
    have inv1: "reach_inv ?d1" using "3.prems" by (simp add: reach_inv_def)
    show ?thesis
    proof (cases "fst item")
      case None
      then show ?thesis
        using 3 Cons inv1 by (simp add: handleQueue.simps)
    next
      case (Some qs)
      then show ?thesis
        using Cons inv1 by (simp add: handleQueue.simps reach_inv_SQLClient_query)
    qed
  qed
qed

lemma reach_inv_commit: "reach_inv d \<Longrightarrow> reach_inv (SQLClient_commit c q cb d)"
proof -
  assume inv: "reach_inv d"
  have a: "reach_inv (setImmediate (Some cb) args d)" for args
    using inv by (simp add: reach_inv_def)
  have b: "reach_inv (upd_client c (\<lambda>cl. cl\<lparr>txState := ''COMMIT'', returnToPool := True\<rparr>) d)"
    using inv by (simp add: reach_inv_def)
  show ?thesis
    using a b by (simp add: SQLClient_commit_def Let_def reach_inv_trio reach_inv_SQLClient_query)
qed

lemma reach_inv_rollback: "reach_inv d \<Longrightarrow> reach_inv (SQLClient_rollback c cb d)"
proof -
  assume inv: "reach_inv d"
  have a: "reach_inv (setImmediate (Some cb) args d)" for args
    using inv by (simp add: reach_inv_def)
  have b: "reach_inv (upd_client c (\<lambda>cl. cl\<lparr>txState := ''ROLLBACK'', returnToPool := True\<rparr>) d)"
    using inv by (simp add: reach_inv_def)
  show ?thesis
    using a b by (simp add: SQLClient_rollback_def reach_inv_trio reach_inv_SQLClient_query)
qed

lemma reach_inv_popped:
  "reach_inv d \<Longrightarrow>
   reach_inv (upd_client c (\<lambda>cl. cl\<lparr>pooled := False\<rparr>)
            (d\<lparr>clientPool := pool, clientsActive := n\<rparr>))"
  by (simp add: reach_inv_def)

lemma reach_inv_scheduleWork: "reach_inv d \<Longrightarrow> reach_inv (scheduleWork d)"
proof (cases "clientPool d")
  case Nil
  assume "reach_inv d"
  with Nil show ?thesis by (simp add: scheduleWork_def createClient_def reach_inv_def)
next
  case (Cons c pool)
  assume "reach_inv d"
  with Cons show ?thesis
    by (simp add: scheduleWork_def getClientFromPool_Cons reach_inv_trio reach_inv_popped)
qed

lemma reach_inv_addToQueue: "reach_inv d \<Longrightarrow> reach_inv (addToQueue qs cb d)"
proof -
  assume "reach_inv d"
  then have "reach_inv (d\<lparr>queue := queue d @ [(qs, cb)], queueSize := queueSize d + 1\<rparr>)"
    by (simp add: reach_inv_def)
  then show ?thesis by (simp add: addToQueue_def reach_inv_scheduleWork)
qed

lemma reach_inv_query: "reach_inv d \<Longrightarrow> reach_inv (SQLDriver_query q cb tx d)"
proof -
  assume inv: "reach_inv d"
  have a: "reach_inv (setImmediate (Some cb) args d)" for args
    using inv by (simp add: reach_inv_def)
  show ?thesis
  proof (cases "clientPool d")
    case Nil
    then show ?thesis
      using inv a
      by (simp add: SQLDriver_query_def Let_def reach_inv_SQLClient_query reach_inv_addToQueue
          split: option.splits)
  next
    case (Cons c pool)
    then show ?thesis
      using inv a
      by (simp add: SQLDriver_query_def Let_def reach_inv_SQLClient_query getClientFromPool_Cons
          reach_inv_popped split: option.splits)
  qed
qed

lemma reach_inv_begin: "reach_inv d \<Longrightarrow> reach_inv (SQLDriver_begin cb d)"
proof -
  assume inv: "reach_inv d"
  have a: "reach_inv (setImmediate (Some cb) args d)" for args
    using inv by (simp add: reach_inv_def)
  show ?thesis
  proof (cases "clientPool d")
    case Nil
    then show ?thesis
      using inv a by (simp add: SQLDriver_begin_def reach_inv_addToQueue)
  next
    case (Cons c pool)
    then show ?thesis
      using inv a
      by (simp add: SQLDriver_begin_def getClientFromPool_Cons reach_inv_trio reach_inv_popped)
  qed
qed

lemma reach_inv_start: "reach_inv d \<Longrightarrow> reach_inv (SQLDriver_start cb d)"
  by (simp add: SQLDriver_start_def SQLDriver__start_def reach_inv_def)

lemma reach_inv_stop: "reach_inv d \<Longrightarrow> reach_inv (SQLDriver_stop cb d)"
  by (simp add: SQLDriver__stop_def Let_def reach_inv_def)

lemma reach_inv_onClientCreated: "reach_inv d \<Longrightarrow> reach_inv (onClientCreated err cl d)"
proof -
  assume inv: "reach_inv d"
  have a: "reach_inv (d\<lparr>clientsActive := n\<rparr>)" for n
    using inv by (simp add: reach_inv_def)
  have b: "reach_inv ((emit e d)\<lparr>clientsCount := n, failuresCount := m\<rparr>)" for e n m
    using inv by (simp add: reach_inv_def)
  have c: "reach_inv (emit e d)" for e
    using inv by (simp add: reach_inv_def)
  show ?thesis
    using a b c
    by (simp add: onClientCreated_def Let_def reach_inv_trio reach_inv_scheduleWork
        split: option.splits)
qed

lemma reach_inv_connected: "reach_inv d \<Longrightarrow> reach_inv (connected err d)"
proof -
  assume inv: "reach_inv d"
  have "reach_inv (d\<lparr>clients := (clients d)(nextClient d := SQLClient_new),
                   nextClient := nextClient d + 1\<rparr>)"
    using inv by (simp add: reach_inv_def SQLClient_new_def)
  then show ?thesis
    using inv by (simp add: connected_def Let_def reach_inv_onClientCreated split: option.splits)
qed

lemma reach_inv_onQuery: "reach_inv d \<Longrightarrow> reach_inv (PGSQLClient_onQuery c err res d)"
proof -
  assume inv: "reach_inv d"
  let ?d1 = "upd_client c (\<lambda>cl. cl\<lparr>c_qs := '''', c_cb := None\<rparr>) d"
  have d1: "reach_inv ?d1" using inv by (simp add: reach_inv_def)
  then have d2: "reach_inv (onClientIdle c ?d1)" by (rule reach_inv_trio)
  have e: "reach_inv (emit x s) = reach_inv s" for x s
    by (simp add: reach_inv_def)
  have f: "reach_inv (call k a s) = reach_inv s" for k a s
    by (simp add: reach_inv_def)
  show ?thesis
    using d1 d2 by (simp add: PGSQLClient_onQuery_def Let_def e f split: option.splits)
qed

lemma reach_inv_step: "reach_inv d \<Longrightarrow> reach_inv (step e d)"
  by (cases e)
     (simp_all add: reach_inv_start reach_inv_stop reach_inv_query reach_inv_begin reach_inv_trio
        reach_inv_SQLClient_query reach_inv_commit reach_inv_rollback reach_inv_connected reach_inv_onQuery
        del: SQLDriver_stop.simps)

lemma reach_inv_run: "reach_inv d \<Longrightarrow> reach_inv (run es d)"
  by (induction es arbitrary: d) (simp_all add: reach_inv_step)

lemma reach_inv_new: "reach_inv ((SQLDriver_new cfg)\<lparr>compiler := compile\<rparr>)"
  by (simp add: reach_inv_def SQLDriver_new_def SQLClient_new_def)

lemma reach_inv_reachable:
  "reach_inv (run es ((SQLDriver_new cfg)\<lparr>compiler := compile\<rparr>))"
  by (rule reach_inv_run) (rule reach_inv_new)

lemma SQLDriver_new_compiler:
  "(SQLDriver_new cfg)\<lparr>compiler := nopCompiler\<rparr> = SQLDriver_new cfg"
  by (simp add: SQLDriver_new_def)

subsection \<open>Transactions, from any state\<close>

lemma tx_session_later:
  assumes "txId (clients d c) \<noteq> -1" and "txState (clients d c) \<noteq> ''''"
    and "\<not> returnToPool (clients d c)"
  shows "backend_queries (effects (run (tx_session c rest) d)) =
           backend_queries (effects d) @ map (\<lambda>r. compiler d (fst r)) rest
         \<and> txState (clients (run (tx_session c rest) d) c) = txState (clients d c)"
  using assms
proof (induction rest arbitrary: d)
  case Nil
  then show ?case by simp
next
  case (Cons r rest)
  obtain q cb err res where r: "r = (q, cb, err, res)"
    by (cases r) auto
  let ?d1 = "PGSQLClient_onQuery c err res d"
  let ?d2 = "SQLClient_query c q cb ?d1"
  have d1: "txId (clients ?d1 c) \<noteq> -1" "txState (clients ?d1 c) = txState (clients d c)"
    "\<not> returnToPool (clients ?d1 c)" "compiler ?d1 = compiler d"
    "backend_queries (effects ?d1) = backend_queries (effects d)"
    using Cons.prems by (simp_all add: onQuery_in_tx)
  have d2: "txId (clients ?d2 c) \<noteq> -1" "txState (clients ?d2 c) = txState (clients d c)"
    "\<not> returnToPool (clients ?d2 c)" "compiler ?d2 = compiler d"
    "backend_queries (effects ?d2) = backend_queries (effects d) @ [compiler d q]"
    using d1 Cons.prems by (simp_all add: SQLClient_query_client SQLClient_query_effects)
  have "backend_queries (effects (run (tx_session c rest) ?d2)) =
           backend_queries (effects ?d2) @ map (\<lambda>r. compiler ?d2 (fst r)) rest
         \<and> txState (clients (run (tx_session c rest) ?d2) c) = txState (clients ?d2 c)"
    using Cons.IH [of ?d2] d2 Cons.prems by simp
  then show ?case
    using d2 r by simp
qed


lemma lazy_begin_general:
  assumes "txId (clients d c) \<noteq> -1" and "txState (clients d c) = ''''"
    and "\<not> returnToPool (clients d c)"
  shows "effects (SQLClient_query c q cb d) =
           effects d @ [BackendQuery c (''BEGIN;\<newline>'' @ compiler d q)]
       \<and> txState (clients (SQLClient_query c q cb d) c) = ''PENDING''
       \<and> backend_queries (effects (run (tx_session c rest) (SQLClient_query c q cb d))) =
           backend_queries (effects d) @
             (''BEGIN;\<newline>'' @ compiler d q) # map (\<lambda>r. compiler d (fst r)) rest"
proof -
  let ?d1 = "SQLClient_query c q cb d"
  have e: "effects ?d1 = effects d @ [BackendQuery c (''BEGIN;\<newline>'' @ compiler d q)]"
    using assms by (simp add: SQLClient_query_effects)
  have c1: "txId (clients ?d1 c) \<noteq> -1" "txState (clients ?d1 c) = ''PENDING''"
    "\<not> returnToPool (clients ?d1 c)" "compiler ?d1 = compiler d"
    using assms by (simp_all add: SQLClient_query_client)
  have "backend_queries (effects (run (tx_session c rest) ?d1)) =
          backend_queries (effects ?d1) @ map (\<lambda>r. compiler ?d1 (fst r)) rest"
    using tx_session_later [of ?d1 c rest] c1 by simp
  then show ?thesis
    using e c1 by simp
qed

subsection \<open>Serving the queue\<close>



lemma backend_queries_BackendEnd [simp]: "backend_queries (map BackendEnd xs) = []"
  by (induction xs) simp_all






















section \<open>The pool counters\<close>

text \<open>
  C1. The claim: along every sequence of driver operations from a freshly constructed
  driver, \<open>0 \<le> clientsActive \<le> clientsCount \<le> clientsMaximum\<close>, and destroying the
  idle pool never drives \<open>clientsActive\<close> below zero.

  The code breaks it. A pooled client is not counted in \<open>clientsActive\<close>
  (\<^verbatim>\<open>_releaseClient\<close> decrements the counter when it pools the client,
  \<^verbatim>\<open>_getClientFromPool\<close> increments it), yet \<^verbatim>\<open>_destroyPool\<close> subtracts the number of
  pooled clients from \<open>clientsActive\<close> again. After one query has been served and its
  client pooled, the counters are \<open>clientsActive = 0\<close>, \<open>clientsCount = 1\<close>; \<^verbatim>\<open>stop()\<close>
  then leaves \<open>clientsActive = -1\<close>.
\<close>

theorem C1_destroyPool_drives_clientsActive_negative:
  "clientsActive (run [Start 0, Query ''SELECT 1'' 1 None, Connected None,
       QueryDone 0 None result_ok] (SQLDriver_new empty_config)) = 0
   \<and> clientPool (run [Start 0, Query ''SELECT 1'' 1 None, Connected None,
       QueryDone 0 None result_ok] (SQLDriver_new empty_config)) = [0]
   \<and> clientsActive (run [Start 0, Query ''SELECT 1'' 1 None, Connected None,
       QueryDone 0 None result_ok, Stop 2] (SQLDriver_new empty_config)) = -1
   \<and> clientsCount (run [Start 0, Query ''SELECT 1'' 1 None, Connected None,
       QueryDone 0 None result_ok, Stop 2] (SQLDriver_new empty_config)) = 0"
  by code_simp

section \<open>Delayed stop\<close>

text \<open>
  C2. The claim: \<^verbatim>\<open>stop(cb)\<close> with active clients records \<open>cb\<close> as the delayed-stop
  callback; when the last active client is released the pool is drained, the status
  becomes \<^verbatim>\<open>stopped\<close> and the recorded \<open>cb\<close> is invoked asynchronously with \<^verbatim>\<open>null\<close>.

  The code breaks it: \<^verbatim>\<open>stop()\<close> stores the callback in \<^verbatim>\<open>internal._onDelayedStop\<close>,
  \<^verbatim>\<open>_idle()\<close> reads \<^verbatim>\<open>internal.onDelayedStop\<close>, which is still \<^verbatim>\<open>null\<close>. With one query in
  flight, \<^verbatim>\<open>stop(2)\<close> and then the query's completion: the status does reach
  \<^verbatim>\<open>stopped\<close>, but \<^verbatim>\<open>setImmediate\<close> is given \<^verbatim>\<open>null\<close> and callback \<open>2\<close> is never scheduled.
  Where the runtime raises at that \<^verbatim>\<open>setImmediate\<close>, the handler ends there and the last
  entry of the trace below, the call of the query's own callback \<open>1\<close>, does not happen
  either.
\<close>

theorem C2_delayed_stop_callback_lost:
  "status (run [Start 0, Query ''SELECT 1'' 1 None, Connected None, Stop 2]
       (SQLDriver_new empty_config)) = ''stopping''
   \<and> u_onDelayedStop (run [Start 0, Query ''SELECT 1'' 1 None, Connected None, Stop 2]
       (SQLDriver_new empty_config)) = Some 2
   \<and> onDelayedStop (run [Start 0, Query ''SELECT 1'' 1 None, Connected None, Stop 2]
       (SQLDriver_new empty_config)) = None
   \<and> status (run [Start 0, Query ''SELECT 1'' 1 None, Connected None, Stop 2,
       QueryDone 0 None result_ok] (SQLDriver_new empty_config)) = ''stopped''
   \<and> effects (run [Start 0, Query ''SELECT 1'' 1 None, Connected None, Stop 2,
       QueryDone 0 None result_ok] (SQLDriver_new empty_config)) =
     [Immediate (Some 0) [Null], BackendConnect, BackendQuery 0 ''SELECT 1'',
      BackendEnd 0, Immediate None [Null], Call 1 [Null, QueryResult (Some []) 0]]"
  by code_simp

section \<open>The statements a transaction sends\<close>




section \<open>Query failures\<close>

text \<open>
  C4. The claim: when a backend query completes with an error while the driver is
  running, the SQL and the error are logged, the error is surfaced as \<^verbatim>\<open>cb(err, null)\<close>,
  and the failing client is destroyed (\<^verbatim>\<open>end()\<close>) rather than pooled.

  The code logs and surfaces the error, but nothing ever sets \<^verbatim>\<open>_failed\<close>, the flag
  \<^verbatim>\<open>_releaseClient\<close> tests: the failing client is pushed onto the idle pool and the
  backend's \<^verbatim>\<open>end()\<close> is not called.
\<close>

theorem C4_failed_query_client_is_pooled:
  "effects (run [Start 0, Query ''SELECT 1'' 1 None, Connected None,
       QueryDone 0 (Some ''boom'') result_ok] (SQLDriver_new empty_config)) =
     [Immediate (Some 0) [Null], BackendConnect, BackendQuery 0 ''SELECT 1'',
      AppError [''[xpart.sql] Query:\<newline>SELECT 1\<newline>'', ''[xpart.sql] boom''],
      Call 1 [BackendError ''boom'', Null]]
   \<and> clientPool (run [Start 0, Query ''SELECT 1'' 1 None, Connected None,
       QueryDone 0 (Some ''boom'') result_ok] (SQLDriver_new empty_config)) = [0]
   \<and> pooled (clients (run [Start 0, Query ''SELECT 1'' 1 None, Connected None,
       QueryDone 0 (Some ''boom'') result_ok] (SQLDriver_new empty_config)) 0)
   \<and> \<not> failed (clients (run [Start 0, Query ''SELECT 1'' 1 None, Connected None,
       QueryDone 0 (Some ''boom'') result_ok] (SQLDriver_new empty_config)) 0)"
  by code_simp

section \<open>Transaction-state errors\<close>

text \<open>
  C5. The claim: \<^verbatim>\<open>begin\<close> inside a transaction, and \<^verbatim>\<open>commit\<close>/\<^verbatim>\<open>rollback\<close> outside one,
  deliver the error asynchronously as the first argument of the callback \<^verbatim>\<open>(err, result)\<close>
  and return the client to idle.

  The code schedules the callback with \<^verbatim>\<open>setImmediate(cb, null, new SQLError(...))\<close>: the
  first argument is \<^verbatim>\<open>null\<close> and the error arrives in the result position, unlike the
  driver's own error paths (\<^verbatim>\<open>setImmediate(cb, new SQLError(...), null)\<close>). Below, callback
  \<open>2\<close> of a \<^verbatim>\<open>begin\<close> on a client already in transaction \<open>1\<close>, and callback \<open>3\<close> of a second
  \<^verbatim>\<open>commit\<close> and of a second \<^verbatim>\<open>rollback\<close>.
\<close>

theorem C5_transaction_error_in_result_position:
  "effects (run [Start 0, Begin 1, Connected None, TxBegin 0 2]
       (SQLDriver_new empty_config)) =
     [Immediate (Some 0) [Null], BackendConnect, Immediate (Some 1) [Null, ClientObj 0],
      Immediate (Some 2) [Null, SQLError (BeginInTx 1)]]
   \<and> clientPool (run [Start 0, Begin 1, Connected None, TxBegin 0 2]
       (SQLDriver_new empty_config)) = [0]
   \<and> effects (run [Start 0, Begin 1, Connected None, TxCommit 0 None 2, TxCommit 0 None 3]
       (SQLDriver_new empty_config)) =
     [Immediate (Some 0) [Null], BackendConnect, Immediate (Some 1) [Null, ClientObj 0],
      Immediate (Some 2) [Null, Null], Immediate (Some 3) [Null, SQLError CommitNotInTx]]
   \<and> effects (run [Start 0, Begin 1, Connected None, TxRollback 0 2, TxRollback 0 3]
       (SQLDriver_new empty_config)) =
     [Immediate (Some 0) [Null], BackendConnect, Immediate (Some 1) [Null, ClientObj 0],
      Immediate (Some 2) [Null, Null], Immediate (Some 3) [Null, SQLError RollbackNotInTx]]"
  by code_simp

section \<open>Empty transactions\<close>

text \<open>
  C6. The claim: for every client in a transaction with \<^verbatim>\<open>_txState = ""\<close>, \<^verbatim>\<open>commit()\<close>
  and \<^verbatim>\<open>rollback()\<close> complete with \<^verbatim>\<open>cb(null, null)\<close>, emit no SQL, and return the client to
  idle with \<^verbatim>\<open>_txId\<close> reset to \<open>-1\<close>.

  The code breaks it whenever a request is waiting in the queue. Both methods schedule
  \<^verbatim>\<open>cb(null, null)\<close> and hand the client to \<^verbatim>\<open>_onClientIdle\<close>, which gives it to
  \<^verbatim>\<open>_handleQueue\<close>; the fields of the client are reset only in \<^verbatim>\<open>_releaseClient\<close>, the other
  branch. Below, a driver limited to one connection: transaction \<open>1\<close> is open on client \<open>0\<close>
  and the query \<open>Q\<close> waits. An empty \<^verbatim>\<open>commit\<close> (likewise an empty \<^verbatim>\<open>rollback\<close>) sends \<open>Q\<close> to the
  backend as \<^verbatim>\<open>"BEGIN;\nQ"\<close> on client \<open>0\<close>, whose \<^verbatim>\<open>_txId\<close> is still \<open>1\<close>; when \<open>Q\<close> completes
  the client is not released (\<^verbatim>\<open>_returnToPool\<close> is still false), so the pool stays empty,
  the only connection stays counted active, and a later query \<open>R\<close> waits forever.
\<close>

theorem C6_empty_commit_with_queued_request:
  "txId (clients (run [Start 0, Begin 1, Connected None, Query ''Q'' 5 None]
       (SQLDriver_new (empty_config\<lparr>maxConnections := Some 1\<rparr>))) 0) = 1
   \<and> txState (clients (run [Start 0, Begin 1, Connected None, Query ''Q'' 5 None]
       (SQLDriver_new (empty_config\<lparr>maxConnections := Some 1\<rparr>))) 0) = ''''
   \<and> queue (run [Start 0, Begin 1, Connected None, Query ''Q'' 5 None]
       (SQLDriver_new (empty_config\<lparr>maxConnections := Some 1\<rparr>))) = [(Some ''Q'', 5)]
   \<and> effects (run [Start 0, Begin 1, Connected None, Query ''Q'' 5 None, TxCommit 0 None 2]
       (SQLDriver_new (empty_config\<lparr>maxConnections := Some 1\<rparr>))) =
     [Immediate (Some 0) [Null], BackendConnect, Immediate (Some 1) [Null, ClientObj 0],
      Immediate (Some 2) [Null, Null], BackendQuery 0 ''BEGIN;\<newline>Q'']
   \<and> txId (clients (run [Start 0, Begin 1, Connected None, Query ''Q'' 5 None,
       TxCommit 0 None 2] (SQLDriver_new (empty_config\<lparr>maxConnections := Some 1\<rparr>))) 0) = 1
   \<and> effects (run [Start 0, Begin 1, Connected None, Query ''Q'' 5 None, TxRollback 0 2]
       (SQLDriver_new (empty_config\<lparr>maxConnections := Some 1\<rparr>))) =
     [Immediate (Some 0) [Null], BackendConnect, Immediate (Some 1) [Null, ClientObj 0],
      Immediate (Some 2) [Null, Null], BackendQuery 0 ''BEGIN;\<newline>Q'']
   \<and> txId (clients (run [Start 0, Begin 1, Connected None, Query ''Q'' 5 None,
       TxRollback 0 2] (SQLDriver_new (empty_config\<lparr>maxConnections := Some 1\<rparr>))) 0) = 1
   \<and> clientPool (run [Start 0, Begin 1, Connected None, Query ''Q'' 5 None, TxCommit 0 None 2,
       QueryDone 0 None result_ok, Query ''R'' 6 None]
       (SQLDriver_new (empty_config\<lparr>maxConnections := Some 1\<rparr>))) = []
   \<and> clientsActive (run [Start 0, Begin 1, Connected None, Query ''Q'' 5 None,
       TxCommit 0 None 2, QueryDone 0 None result_ok, Query ''R'' 6 None]
       (SQLDriver_new (empty_config\<lparr>maxConnections := Some 1\<rparr>))) = 1
   \<and> queue (run [Start 0, Begin 1, Connected None, Query ''Q'' 5 None, TxCommit 0 None 2,
       QueryDone 0 None result_ok, Query ''R'' 6 None]
       (SQLDriver_new (empty_config\<lparr>maxConnections := Some 1\<rparr>))) = [(Some ''R'', 6)]"
  by code_simp

section \<open>Lazy BEGIN\<close>

text \<open>
  C7. In every state a driver can reach (whatever its compiler), for a client in a
  transaction (\<^verbatim>\<open>_txId \<noteq> -1\<close>) with \<^verbatim>\<open>_txState = ""\<close>, the first \<^verbatim>\<open>query\<close> is dispatched as
  \<^verbatim>\<open>"BEGIN;\n"\<close> followed by the compiled statement and sets \<^verbatim>\<open>_txState\<close> to \<^verbatim>\<open>PENDING\<close>; every
  later \<^verbatim>\<open>query\<close> of the transaction (each after the backend has completed the one before,
  with success or with an error) is dispatched as its compiled statement, without the
  prefix.
\<close>

theorem C7_lazy_begin_only_on_first_query:
  assumes "d = run es ((SQLDriver_new cfg)\<lparr>compiler := compile\<rparr>)"
    and "txId (clients d c) \<noteq> -1" and "txState (clients d c) = ''''"
  shows "effects (SQLClient_query c q cb d) =
           effects d @ [BackendQuery c (''BEGIN;\<newline>'' @ compiler d q)]
       \<and> txState (clients (SQLClient_query c q cb d) c) = ''PENDING''
       \<and> backend_queries (effects (run (tx_session c rest) (SQLClient_query c q cb d))) =
           backend_queries (effects d) @
             (''BEGIN;\<newline>'' @ compiler d q) # map (\<lambda>r. compiler d (fst r)) rest"
proof -
  have "reach_inv d"
    using assms(1) by (simp only: reach_inv_reachable)
  then have "\<not> returnToPool (clients d c)"
    using assms(2,3) by (auto simp add: reach_inv_def)
  with assms(2,3) show ?thesis
    by (rule lazy_begin_general)
qed

text \<open>The theorem at client \<open>0\<close> in transaction \<open>1\<close>: three statements, the third after the
  second has failed.\<close>

theorem C7_witness:
  "in_tx_state =
     run [Start 0, Begin 1, Connected None]
       ((SQLDriver_new empty_config)\<lparr>compiler := nopCompiler\<rparr>)
   \<and> txId (clients in_tx_state 0) \<noteq> -1 \<and> txState (clients in_tx_state 0) = ''''
   \<and> effects (SQLClient_query 0 ''A'' 2 in_tx_state) =
       effects in_tx_state @ [BackendQuery 0 ''BEGIN;\<newline>A'']
   \<and> txState (clients (SQLClient_query 0 ''A'' 2 in_tx_state) 0) = ''PENDING''
   \<and> backend_queries (effects (run
         (tx_session 0 [(''B'', 3, None, result_ok), (''C'', 4, Some ''boom'', result_ok)])
         (SQLClient_query 0 ''A'' 2 in_tx_state))) =
       [''BEGIN;\<newline>A'', ''B'', ''C'']"
proof -
  have h0: "in_tx_state =
     run [Start 0, Begin 1, Connected None]
       ((SQLDriver_new empty_config)\<lparr>compiler := nopCompiler\<rparr>)"
    by (simp only: in_tx_state_def SQLDriver_new_compiler)
  have h1: "txId (clients in_tx_state 0) \<noteq> -1" by code_simp
  have h2: "txState (clients in_tx_state 0) = ''''" by code_simp
  have e1: "compiler in_tx_state ''A'' = ''A''" "compiler in_tx_state ''B'' = ''B''"
    "compiler in_tx_state ''C'' = ''C''"
    by code_simp+
  have e2: "backend_queries (effects in_tx_state) = []" by code_simp
  have "effects (SQLClient_query 0 ''A'' 2 in_tx_state) =
       effects in_tx_state @ [BackendQuery 0 ''BEGIN;\<newline>A'']
   \<and> txState (clients (SQLClient_query 0 ''A'' 2 in_tx_state) 0) = ''PENDING''
   \<and> backend_queries (effects (run
         (tx_session 0 [(''B'', 3, None, result_ok), (''C'', 4, Some ''boom'', result_ok)])
         (SQLClient_query 0 ''A'' 2 in_tx_state))) =
       [''BEGIN;\<newline>A'', ''B'', ''C'']"
    using C7_lazy_begin_only_on_first_query [OF h0 h1 h2, of "''A''" 2
        "[(''B'', 3, None, result_ok), (''C'', 4, Some ''boom'', result_ok)]"] e1 e2
    by simp
  with h0 h1 h2 show ?thesis by blast
qed

section \<open>Scheduling\<close>

text \<open>
  C8. When \<^verbatim>\<open>_scheduleWork\<close> runs with a non-empty queue (head \<open>(qs, cb)\<close>):
  \<^item> if the idle pool is \<open>c # pool\<close>, client \<open>c\<close> is popped (counted active, no longer
    pooled), the head is removed from the queue and dispatched onto \<open>c\<close>, as
    \<^verbatim>\<open>c.query(qs, cb)\<close> if \<open>qs\<close> is not \<^verbatim>\<open>null\<close> and as \<^verbatim>\<open>c.begin(cb)\<close> if it is; the pool is then
    \<open>pool\<close> and the queue the rest;
  \<^item> if the pool is empty and \<open>clientsCount < clientsMaximum\<close>, \<open>clientsCount\<close> is
    incremented and a client is requested from the backend, the queue unchanged;
  \<^item> otherwise nothing changes.
\<close>

theorem C8_scheduleWork_cases:
  assumes "queue d = (qs, cb) # rest"
  shows "(clientPool d = c # pool \<longrightarrow>
            scheduleWork d =
              (case qs of
                 Some s \<Rightarrow>
                   SQLClient_query c s cb
                     ((upd_client c (\<lambda>cl. cl\<lparr>pooled := False\<rparr>)
                        (d\<lparr>clientPool := pool, clientsActive := clientsActive d + 1\<rparr>))
                      \<lparr>queue := rest, queueSize := queueSize d - 1\<rparr>)
               | None \<Rightarrow>
                   SQLClient_begin c cb
                     ((upd_client c (\<lambda>cl. cl\<lparr>pooled := False\<rparr>)
                        (d\<lparr>clientPool := pool, clientsActive := clientsActive d + 1\<rparr>))
                      \<lparr>queue := rest, queueSize := queueSize d - 1\<rparr>)))
       \<and> (clientPool d = c # pool \<and> qs = Some s \<longrightarrow>
            clientPool (scheduleWork d) = pool \<and> queue (scheduleWork d) = rest
            \<and> effects (scheduleWork d) =
                effects d @ [BackendQuery c
                  (if txId (clients d c) \<noteq> -1 \<and> txState (clients d c) = ''''
                   then ''BEGIN;\<newline>'' @ compiler d s else compiler d s)])
       \<and> (clientPool d = c # pool \<and> qs = None \<and> txId (clients d c) = -1 \<longrightarrow>
            clientPool (scheduleWork d) = pool \<and> queue (scheduleWork d) = rest
            \<and> effects (scheduleWork d) = effects d @ [Immediate (Some cb) [Null, ClientObj c]])
       \<and> (clientPool d = [] \<and> clientsCount d < clientsMaximum d \<longrightarrow>
            scheduleWork d = createClient (d\<lparr>clientsCount := clientsCount d + 1\<rparr>)
            \<and> clientsCount (scheduleWork d) = clientsCount d + 1
            \<and> queue (scheduleWork d) = queue d
            \<and> effects (scheduleWork d) = effects d @ [BackendConnect])
       \<and> (clientPool d = [] \<and> \<not> clientsCount d < clientsMaximum d \<longrightarrow> scheduleWork d = d)"
proof -
  have disp: "scheduleWork d =
      (case qs of
         Some s \<Rightarrow>
           SQLClient_query c s cb
             ((upd_client c (\<lambda>cl. cl\<lparr>pooled := False\<rparr>)
                (d\<lparr>clientPool := pool, clientsActive := clientsActive d + 1\<rparr>))
              \<lparr>queue := rest, queueSize := queueSize d - 1\<rparr>)
       | None \<Rightarrow>
           SQLClient_begin c cb
             ((upd_client c (\<lambda>cl. cl\<lparr>pooled := False\<rparr>)
                (d\<lparr>clientPool := pool, clientsActive := clientsActive d + 1\<rparr>))
              \<lparr>queue := rest, queueSize := queueSize d - 1\<rparr>))"
    if "clientPool d = c # pool"
    using that assms
    by (simp add: scheduleWork_def getClientFromPool_Cons handleQueue.simps Let_def
        upd_client_def split: option.splits)
  have q: "clientPool (scheduleWork d) = pool \<and> queue (scheduleWork d) = rest
      \<and> effects (scheduleWork d) =
          effects d @ [BackendQuery c
            (if txId (clients d c) \<noteq> -1 \<and> txState (clients d c) = ''''
             then ''BEGIN;\<newline>'' @ compiler d s else compiler d s)]"
    if "clientPool d = c # pool" "qs = Some s"
    using that disp by (simp add: SQLClient_query_effects)
  have b: "clientPool (scheduleWork d) = pool \<and> queue (scheduleWork d) = rest
      \<and> effects (scheduleWork d) = effects d @ [Immediate (Some cb) [Null, ClientObj c]]"
    if "clientPool d = c # pool" "qs = None" "txId (clients d c) = -1"
    using that disp by (simp add: SQLClient_begin.simps newTxId_def)
  have n: "scheduleWork d = createClient (d\<lparr>clientsCount := clientsCount d + 1\<rparr>)
      \<and> clientsCount (scheduleWork d) = clientsCount d + 1
      \<and> queue (scheduleWork d) = queue d
      \<and> effects (scheduleWork d) = effects d @ [BackendConnect]"
    if "clientPool d = []" "clientsCount d < clientsMaximum d"
    using that assms by (simp add: scheduleWork_def createClient_def)
  have f: "scheduleWork d = d" if "clientPool d = []" "\<not> clientsCount d < clientsMaximum d"
    using that assms by (simp add: scheduleWork_def)
  show ?thesis
    using disp q b n f by blast
qed

text \<open>The theorem at four states: a pooled client with a query queued, a pooled client with
  a transaction request queued, an empty pool below the connection limit, and an empty
  pool at the limit.\<close>

theorem C8_witness:
  "queue (pooled_state\<lparr>queue := [(Some ''Q'', 5)]\<rparr>) = [(Some ''Q'', 5)]
   \<and> clientPool (pooled_state\<lparr>queue := [(Some ''Q'', 5)]\<rparr>) = [0]
   \<and> clientPool (scheduleWork (pooled_state\<lparr>queue := [(Some ''Q'', 5)]\<rparr>)) = []
   \<and> queue (scheduleWork (pooled_state\<lparr>queue := [(Some ''Q'', 5)]\<rparr>)) = []
   \<and> effects (scheduleWork (pooled_state\<lparr>queue := [(Some ''Q'', 5)]\<rparr>)) =
       effects pooled_state @ [BackendQuery 0 ''Q'']
   \<and> queue (pooled_state\<lparr>queue := [(None, 6)]\<rparr>) = [(None, 6)]
   \<and> txId (clients (pooled_state\<lparr>queue := [(None, 6)]\<rparr>) 0) = -1
   \<and> effects (scheduleWork (pooled_state\<lparr>queue := [(None, 6)]\<rparr>)) =
       effects pooled_state @ [Immediate (Some 6) [Null, ClientObj 0]]
   \<and> queue (running_state\<lparr>queue := [(Some ''Q'', 5)]\<rparr>) = [(Some ''Q'', 5)]
   \<and> clientPool (running_state\<lparr>queue := [(Some ''Q'', 5)]\<rparr>) = []
   \<and> clientsCount (running_state\<lparr>queue := [(Some ''Q'', 5)]\<rparr>)
       < clientsMaximum (running_state\<lparr>queue := [(Some ''Q'', 5)]\<rparr>)
   \<and> clientsCount (scheduleWork (running_state\<lparr>queue := [(Some ''Q'', 5)]\<rparr>)) = 1
   \<and> queue (scheduleWork (running_state\<lparr>queue := [(Some ''Q'', 5)]\<rparr>)) = [(Some ''Q'', 5)]
   \<and> effects (scheduleWork (running_state\<lparr>queue := [(Some ''Q'', 5)]\<rparr>)) =
       effects running_state @ [BackendConnect]
   \<and> queue busy_state = [(Some ''A'', 1)] \<and> clientPool busy_state = []
   \<and> \<not> clientsCount busy_state < clientsMaximum busy_state
   \<and> scheduleWork busy_state = busy_state"
proof -
  let ?A = "pooled_state\<lparr>queue := [(Some ''Q'', 5)]\<rparr>"
  let ?B = "pooled_state\<lparr>queue := [(None, 6)]\<rparr>"
  let ?C = "running_state\<lparr>queue := [(Some ''Q'', 5)]\<rparr>"
  have p: "clientPool pooled_state = [0]" "txId (clients pooled_state 0) = -1"
    "compiler pooled_state ''Q'' = ''Q''"
    by code_simp+
  have r: "clientPool running_state = []" "clientsCount running_state = 0"
    "clientsMaximum running_state = 20"
    by code_simp+
  have u: "queue busy_state = (Some ''A'', 1) # []" "clientPool busy_state = []"
    "\<not> clientsCount busy_state < clientsMaximum busy_state"
    by code_simp+
  have a: "queue ?A = (Some ''Q'', 5) # []" "clientPool ?A = 0 # []"
    using p by simp_all
  have b: "queue ?B = (None, 6) # []" "clientPool ?B = 0 # []" "txId (clients ?B 0) = -1"
    using p by simp_all
  have c: "queue ?C = (Some ''Q'', 5) # []" "clientPool ?C = []"
    "clientsCount ?C < clientsMaximum ?C"
    using r by simp_all
  have ra: "clientPool (scheduleWork ?A) = [] \<and> queue (scheduleWork ?A) = []
      \<and> effects (scheduleWork ?A) =
          effects ?A @ [BackendQuery 0
            (if txId (clients ?A 0) \<noteq> -1 \<and> txState (clients ?A 0) = ''''
             then ''BEGIN;\<newline>'' @ compiler ?A ''Q'' else compiler ?A ''Q'')]"
    using C8_scheduleWork_cases [OF a(1), of 0 "[]" "''Q''"] a(2) by blast
  have rb: "clientPool (scheduleWork ?B) = [] \<and> queue (scheduleWork ?B) = []
      \<and> effects (scheduleWork ?B) = effects ?B @ [Immediate (Some 6) [Null, ClientObj 0]]"
    using C8_scheduleWork_cases [OF b(1), of 0 "[]"] b(2,3) by blast
  have rc: "clientsCount (scheduleWork ?C) = clientsCount ?C + 1
      \<and> queue (scheduleWork ?C) = queue ?C
      \<and> effects (scheduleWork ?C) = effects ?C @ [BackendConnect]"
    using C8_scheduleWork_cases [OF c(1)] c(2,3) by blast
  have rd: "scheduleWork busy_state = busy_state"
    using C8_scheduleWork_cases [OF u(1)] u(2,3) by blast
  show ?thesis
    using ra rb rc rd p r u by simp
qed

section \<open>The work queue is FIFO\<close>




section \<open>Queries bound to a transaction\<close>

text \<open>
  C10. \<^verbatim>\<open>SQLDriver.query(q, cb, tx)\<close> with a transaction object delegates to
  \<^verbatim>\<open>tx.query(compile(q), cb)\<close> before the status check: whatever the status of the driver,
  the statement goes to the backend and no error is scheduled. Only without a
  transaction object does a driver that is not running answer with the driver-state
  error.
\<close>

theorem C10_tx_query_bypasses_status_check:
  "SQLDriver_query q cb (Some tx) d = SQLClient_query tx (compiler d q) cb d
   \<and> effects (SQLDriver_query q cb (Some tx) d) =
       effects d @ [BackendQuery tx
         (if txId (clients d tx) \<noteq> -1 \<and> txState (clients d tx) = ''''
          then ''BEGIN;\<newline>'' @ compiler d (compiler d q)
          else compiler d (compiler d q))]
   \<and> (status d \<noteq> ''running'' \<longrightarrow>
        SQLDriver_query q cb None d =
          setImmediate (Some cb) [SQLError (CannotQuery (status d)), Null] d)"
  by (simp add: SQLDriver_query_def SQLClient_query_effects Let_def)

text \<open>The theorem at a stopping driver whose client \<open>0\<close> holds transaction \<open>1\<close>.\<close>

theorem C10_witness:
  "status stopping_tx_state = ''stopping'' \<and> status stopping_tx_state \<noteq> ''running''
   \<and> effects (SQLDriver_query ''Q'' 3 (Some 0) stopping_tx_state) =
       effects stopping_tx_state @ [BackendQuery 0 ''BEGIN;\<newline>Q'']
   \<and> effects (SQLDriver_query ''Q'' 3 None stopping_tx_state) =
       effects stopping_tx_state @ [Immediate (Some 3) [SQLError (CannotQuery ''stopping''), Null]]"
proof -
  let ?S = stopping_tx_state
  have h: "status ?S = ''stopping''" by code_simp
  have n: "status ?S \<noteq> ''running''" by code_simp
  have e: "txId (clients ?S 0) = 1" "txState (clients ?S 0) = ''''"
    "compiler ?S ''Q'' = ''Q''"
    by code_simp+
  have t: "effects (SQLDriver_query ''Q'' 3 (Some 0) ?S) =
      effects ?S @ [BackendQuery 0
        (if txId (clients ?S 0) \<noteq> -1 \<and> txState (clients ?S 0) = ''''
         then ''BEGIN;\<newline>'' @ compiler ?S (compiler ?S ''Q'')
         else compiler ?S (compiler ?S ''Q''))]"
    using C10_tx_query_bypasses_status_check [of "''Q''" 3 0 ?S] by blast
  have f: "SQLDriver_query ''Q'' 3 None ?S =
      setImmediate (Some 3) [SQLError (CannotQuery (status ?S)), Null] ?S"
    using C10_tx_query_bypasses_status_check [of "''Q''" 3 0 ?S] n by blast
  show ?thesis
    using t h n e unfolding f by simp
qed

end
